theory Spec2Isabelle
  imports Complex_Main "HOL-Library.Code_Target_Nat"
begin

section \<open>JavaScript strings\<close>

text \<open>
  Strings are lists of 8-bit characters (the memos, amounts and reference IDs of the
  service are ASCII).  The functions below are the string methods the services call,
  with the behaviour ECMAScript gives them on the arguments that occur.
\<close>

text \<open>\<^verbatim>\<open>s.split(c)\<close> for a one-character separator: never the empty array.\<close>

fun split_on :: "char \<Rightarrow> string \<Rightarrow> string list" where
  "split_on c [] = [[]]"
| "split_on c (x # xs) =
     (if x = c then [] # split_on c xs
      else (case split_on c xs of [] \<Rightarrow> [[x]] | y # ys \<Rightarrow> (x # y) # ys))"

text \<open>\<^verbatim>\<open>parts.join(c)\<close>.\<close>

fun join_with :: "char \<Rightarrow> string list \<Rightarrow> string" where
  "join_with c [] = []"
| "join_with c [x] = x"
| "join_with c (x # y # ys) = x @ c # join_with c (y # ys)"

text \<open>
  Array destructuring: \<^verbatim>\<open>const [a, b] = parts\<close> binds a missing element to
  \<^verbatim>\<open>undefined\<close> (here \<open>None\<close>); \<^verbatim>\<open>const [a, b = ''] = parts\<close> binds it to the default.
\<close>

definition elem :: "string list \<Rightarrow> nat \<Rightarrow> string option" where
  "elem parts i = (if i < length parts then Some (parts ! i) else None)"

definition elem_or :: "string \<Rightarrow> string list \<Rightarrow> nat \<Rightarrow> string" where
  "elem_or dflt parts i = (case elem parts i of None \<Rightarrow> dflt | Some p \<Rightarrow> p)"

text \<open>\<^verbatim>\<open>s.padEnd(n, c)\<close> and \<^verbatim>\<open>s.padStart(n, c)\<close>; a target length below the length of
  \<open>s\<close> (or a negative one, here \<open>0\<close>) leaves \<open>s\<close> as it is.\<close>

definition padEnd :: "nat \<Rightarrow> char \<Rightarrow> string \<Rightarrow> string" where
  "padEnd n c s = s @ replicate (n - length s) c"

definition padStart :: "nat \<Rightarrow> char \<Rightarrow> string \<Rightarrow> string" where
  "padStart n c s = replicate (n - length s) c @ s"

text \<open>
  \<^verbatim>\<open>s.slice(-n)\<close> for \<open>n \<ge> 0\<close>: the last \<open>n\<close> characters, the whole string when
  \<open>n\<close> exceeds its length, and, since \<^verbatim>\<open>-0\<close> is \<^verbatim>\<open>0\<close>, the whole string when \<open>n = 0\<close>.
\<close>

definition slice_last :: "nat \<Rightarrow> string \<Rightarrow> string" where
  "slice_last n s = (if n = 0 then s else drop (length s - n) s)"

definition is_space :: "char \<Rightarrow> bool" where
  "is_space c = (c \<in> set [CHR '' '', CHR 0x09, CHR 0x0A, CHR 0x0B, CHR 0x0C, CHR 0x0D])"

text \<open>\<^verbatim>\<open>s.trim()\<close>.\<close>

definition trim :: "string \<Rightarrow> string" where
  "trim s = rev (dropWhile is_space (rev (dropWhile is_space s)))"

text \<open>\<^verbatim>\<open>s.toLowerCase()\<close> on ASCII.\<close>

definition lower_char :: "char \<Rightarrow> char" where
  "lower_char c =
     (let n = (of_char c :: nat) in if 65 \<le> n \<and> n \<le> 90 then char_of (n + 32) else c)"

definition toLowerCase :: "string \<Rightarrow> string" where
  "toLowerCase s = map lower_char s"

section \<open>JavaScript numbers\<close>

text \<open>
  Numbers are modelled by their exact values: \<open>parseInt\<close> yields an integer and
  \<open>parseFloat\<close> a rational, with \<open>None\<close> for \<^verbatim>\<open>NaN\<close>.  The rounding of IEEE-754
  doubles is not part of the model: it agrees with the exact values for integers below
  \<open>2^53\<close> and for comparisons of decimal numerals of at most 15 significant digits.
  Exponents and \<^verbatim>\<open>Infinity\<close> in the argument of \<open>parseFloat\<close> are not modelled either.
\<close>

datatype js_error = TypeError | RangeError | Error string

definition is_digit :: "char \<Rightarrow> bool" where
  "is_digit c = (c \<in> set ''0123456789'')"

definition is_digits :: "string \<Rightarrow> bool" where
  "is_digits s = list_all is_digit s"

text \<open>The value of a character as a digit in a radix up to 36, as \<open>parseInt\<close> reads it.\<close>

definition digit_of :: "char \<Rightarrow> nat option" where
  "digit_of c =
     (let n = (of_char c :: nat) in
      if 48 \<le> n \<and> n \<le> 57 then Some (n - 48)
      else if 97 \<le> n \<and> n \<le> 122 then Some (n - 87)
      else if 65 \<le> n \<and> n \<le> 90 then Some (n - 55)
      else None)"

definition is_radix_digit :: "nat \<Rightarrow> char \<Rightarrow> bool" where
  "is_radix_digit R c = (case digit_of c of None \<Rightarrow> False | Some v \<Rightarrow> v < R)"

definition digit_value :: "char \<Rightarrow> nat" where
  "digit_value c = (case digit_of c of None \<Rightarrow> 0 | Some v \<Rightarrow> v)"

definition radix_value :: "nat \<Rightarrow> string \<Rightarrow> nat" where
  "radix_value R s = foldl (\<lambda>a c. a * R + digit_value c) 0 s"

text \<open>
  \<^verbatim>\<open>parseInt(s)\<close> without a radix: leading white space is skipped, a sign is read, a
  prefix \<^verbatim>\<open>0x\<close> selects radix 16, and the longest run of digits is converted; no digit
  gives \<^verbatim>\<open>NaN\<close>.
\<close>

definition parseInt :: "string \<Rightarrow> int option" where
  "parseInt s =
     (let t = dropWhile is_space s;
          neg = (take 1 t = ''-'');
          u = (if take 1 t = ''-'' \<or> take 1 t = ''+'' then drop 1 t else t);
          hex = (take 2 u = ''0x'' \<or> take 2 u = ''0X'');
          R = (if hex then 16 else 10);
          v = (if hex then drop 2 u else u);
          z = takeWhile (is_radix_digit R) v
      in if z = [] then None
         else Some ((if neg then - 1 else 1) * int (radix_value R z)))"

text \<open>
  \<^verbatim>\<open>parseFloat(s)\<close>: leading white space, a sign, digits, and a point followed by
  digits; the longest such prefix is converted, and a prefix without any digit gives
  \<^verbatim>\<open>NaN\<close>.
\<close>

definition parseFloat :: "string \<Rightarrow> rat option" where
  "parseFloat s =
     (let t = dropWhile is_space s;
          neg = (take 1 t = ''-'');
          u = (if take 1 t = ''-'' \<or> take 1 t = ''+'' then drop 1 t else t);
          ip = takeWhile is_digit u;
          rest = dropWhile is_digit u;
          fp = (if take 1 rest = ''.'' then takeWhile is_digit (drop 1 rest) else [])
      in if ip = [] \<and> fp = [] then None
         else Some ((if neg then - 1 else 1) *
                (of_nat (radix_value 10 ip) + of_nat (radix_value 10 fp) / 10 ^ length fp)))"

text \<open>Comparisons of numbers: every comparison with \<^verbatim>\<open>NaN\<close> is false.\<close>

definition num_le :: "('a::linorder) option \<Rightarrow> 'a option \<Rightarrow> bool" where
  "num_le x y = (case (x, y) of (Some a, Some b) \<Rightarrow> a \<le> b | _ \<Rightarrow> False)"

definition num_less :: "('a::linorder) option \<Rightarrow> 'a option \<Rightarrow> bool" where
  "num_less x y = (case (x, y) of (Some a, Some b) \<Rightarrow> a < b | _ \<Rightarrow> False)"

text \<open>\<^verbatim>\<open>n.toString()\<close> for an integral number.\<close>

definition digit_char :: "nat \<Rightarrow> char" where
  "digit_char n = ''0123456789'' ! n"

fun nat_to_string :: "nat \<Rightarrow> string" where
  "nat_to_string n =
     (if n < 10 then [digit_char n] else nat_to_string (n div 10) @ [digit_char (n mod 10)])"

declare nat_to_string.simps [simp del]

definition int_to_string :: "int \<Rightarrow> string" where
  "int_to_string i = (if i < 0 then CHR ''-'' # nat_to_string (nat (- i)) else nat_to_string (nat i))"

definition number_to_string :: "int option \<Rightarrow> string" where
  "number_to_string x = (case x of None \<Rightarrow> ''NaN'' | Some i \<Rightarrow> int_to_string i)"

section \<open>Decimal codec\<close>

text \<open>
  Asset decimals are natural numbers (the pool registry's \<^verbatim>\<open>decimals\<close>, default 8).
\<close>

subsection \<open>Reference validation\<close>

text \<open>\<^verbatim>\<open>MemolessService.validateAmountToReference\<close>.\<close>

definition validateAmountToReference :: "string \<Rightarrow> string \<Rightarrow> nat \<Rightarrow> bool" where
  "validateAmountToReference amount referenceID assetDecimals =
     (let decimalPart = elem_or [] (split_on CHR ''.'' amount) 1;
          processedDecimalPart =
            (if length decimalPart > assetDecimals then take assetDecimals decimalPart
             else decimalPart);
          paddedDecimals = padEnd assetDecimals CHR ''0'' processedDecimalPart;
          referenceLength = length referenceID;
          lastDigits = slice_last referenceLength paddedDecimals
      in lastDigits = referenceID)"

text \<open>\<^verbatim>\<open>RegistrationService.checkReferenceInAmount\<close>, the check of the preflight path;
  its \<^verbatim>\<open>decimals\<close> argument is not used.\<close>

definition checkReferenceInAmount :: "string \<Rightarrow> string \<Rightarrow> nat \<Rightarrow> bool" where
  "checkReferenceInAmount amount referenceId decimals =
     (let decimalPart = elem_or [] (split_on CHR ''.'' amount) 1 in
      if length decimalPart = 0 then False
      else let referenceLength = length referenceId in
        if length decimalPart < referenceLength then False
        else slice_last referenceLength decimalPart = referenceId)"

subsection \<open>Minimum amount\<close>

text \<open>\<^verbatim>\<open>RegistrationService.calculateMinimumAmountToSend\<close>.\<close>

definition calculateMinimumAmountToSend :: "string \<Rightarrow> nat \<Rightarrow> string" where
  "calculateMinimumAmountToSend referenceId decimals =
     (let referenceLength = length referenceId in
      if referenceLength \<ge> decimals then ''1.'' @ take decimals referenceId
      else let paddingZeros = int decimals - int referenceLength - 1 in
        if paddingZeros < 0 then ''0.1'' @ take (decimals - 1) referenceId
        else ''0.'' @ replicate (nat paddingZeros) CHR ''0'' @ ''1'' @ referenceId)"

subsection \<open>Raw amounts\<close>



subsection \<open>Suggested amounts\<close>

text \<open>
  \<^verbatim>\<open>RegistrationService.incrementBeforeReference\<close>.  Reading \<^verbatim>\<open>substring\<close> of a missing
  decimal part throws a \<^verbatim>\<open>TypeError\<close>; \<^verbatim>\<open>'0'.repeat\<close> of a negative count throws a
  \<^verbatim>\<open>RangeError\<close>.  When the reference is longer than the decimals,
  \<^verbatim>\<open>Math.pow(10, decimals - referenceLength) - 1\<close> lies strictly between \<open>-1\<close> and \<open>0\<close>.
\<close>

definition exceeds_max_before :: "int option \<Rightarrow> nat \<Rightarrow> nat \<Rightarrow> bool" where
  "exceeds_max_before beforeNum decimals referenceLength =
     (case beforeNum of None \<Rightarrow> False
      | Some n \<Rightarrow>
          if referenceLength \<le> decimals then n > 10 ^ (decimals - referenceLength) - 1
          else n \<ge> 0)"

definition incrementBeforeReference :: "string \<Rightarrow> string \<Rightarrow> nat \<Rightarrow> js_error + string" where
  "incrementBeforeReference amount referenceId decimals =
     (let parts = split_on CHR ''.'' amount;
          integerPart = elem_or [] parts 0
      in case elem parts 1 of
           None \<Rightarrow> Inl TypeError
         | Some decimalPart \<Rightarrow>
            (let referenceLength = length referenceId;
                 beforeReference = take (decimals - referenceLength) decimalPart;
                 beforeNum = map_option (\<lambda>n. n + 1)
                    (parseInt (if beforeReference = [] then ''0'' else beforeReference))
             in if exceeds_max_before beforeNum decimals referenceLength then
                  (let newInteger = number_to_string (map_option (\<lambda>n. n + 1) (parseInt integerPart))
                   in if decimals < referenceLength then Inl RangeError
                      else Inr (newInteger @ ''.'' @
                             replicate (decimals - referenceLength) CHR ''0'' @ referenceId))
                else
                  Inr (integerPart @ ''.'' @
                       padStart (decimals - referenceLength) CHR ''0'' (number_to_string beforeNum) @
                       referenceId)))"

text \<open>
  The borrow loop of \<^verbatim>\<open>decrementBeforeReference\<close>: from index \<open>i\<close> leftwards, every
  \<^verbatim>\<open>'0'\<close> becomes \<^verbatim>\<open>'9'\<close>; the result is the array and the index where the loop stopped
  (\<open>-1\<close> when it ran off the array).
\<close>

fun borrow_loop :: "string list \<Rightarrow> nat \<Rightarrow> string list \<times> int" where
  "borrow_loop digits 0 =
     (if digits ! 0 = ''0'' then (digits[0 := ''9''], - 1) else (digits, 0))"
| "borrow_loop digits (Suc i) =
     (if digits ! (Suc i) = ''0'' then borrow_loop (digits[Suc i := ''9'']) i
      else (digits, int (Suc i)))"

text \<open>\<^verbatim>\<open>RegistrationService.decrementBeforeReference\<close>; \<^verbatim>\<open>digits\<close> is the array of the
  one-character strings of the decimal part.\<close>

definition decrementBeforeReference :: "string \<Rightarrow> nat \<Rightarrow> js_error + string" where
  "decrementBeforeReference amount referenceLength =
     (let parts = split_on CHR ''.'' amount;
          integerPart = elem_or [] parts 0
      in case elem parts 1 of
           None \<Rightarrow> Inl TypeError
         | Some decimalPart \<Rightarrow>
            (let digits = map (\<lambda>c. [c]) decimalPart;
                 decrementIndex = int (length decimalPart) - int referenceLength - 1
             in if decrementIndex \<ge> 0 then
                  (let k = nat decrementIndex;
                       currentDigit = parseInt (digits ! k)
                   in if num_less (Some 0) currentDigit then
                        Inr (integerPart @ ''.'' @
                             concat (digits[k := number_to_string
                                        (map_option (\<lambda>n. n - 1) currentDigit)]))
                      else
                        (let (digits', borrowIndex) = borrow_loop digits k
                         in if borrowIndex \<ge> 0 then
                              Inr (integerPart @ ''.'' @
                                   concat (digits'[nat borrowIndex := number_to_string
                                      (map_option (\<lambda>n. n - 1)
                                         (parseInt (digits' ! nat borrowIndex)))]))
                            else
                              (let intValue = parseInt integerPart
                               in if num_less (Some 0) intValue then
                                    Inr (number_to_string (map_option (\<lambda>n. n - 1) intValue) @
                                         ''.'' @ concat (digits'[0 := ''9'']))
                                  else
                                    Inr (''0.'' @
                                         replicate (length decimalPart - referenceLength) CHR ''0'' @
                                         slice_last referenceLength amount))))
                else Inr (integerPart @ ''.'' @ concat digits)))"

datatype direction = Up | Down

text \<open>
  The two loops of \<^verbatim>\<open>calculateSingleSuggestion\<close>.  The first argument bounds the
  number of times the loop condition is evaluated; \<open>None\<close> means that the loop is still
  running when the bound is reached.  An exception of the loop body ends the call.
\<close>

fun up_loop :: "nat \<Rightarrow> rat option \<Rightarrow> string \<Rightarrow> nat \<Rightarrow> string \<Rightarrow> (js_error + string) option" where
  "up_loop 0 originalFloat reference decimals workingAmount = None"
| "up_loop (Suc fuel) originalFloat reference decimals workingAmount =
     (if num_le (parseFloat workingAmount) originalFloat then
        (case incrementBeforeReference workingAmount reference decimals of
           Inl e \<Rightarrow> Some (Inl e)
         | Inr w \<Rightarrow> up_loop fuel originalFloat reference decimals w)
      else Some (Inr workingAmount))"

fun down_loop :: "nat \<Rightarrow> rat option \<Rightarrow> nat \<Rightarrow> string \<Rightarrow> (js_error + string) option" where
  "down_loop 0 originalFloat referenceLength workingAmount = None"
| "down_loop (Suc fuel) originalFloat referenceLength workingAmount =
     (if num_less originalFloat (parseFloat workingAmount) then
        (case decrementBeforeReference workingAmount referenceLength of
           Inl e \<Rightarrow> Some (Inl e)
         | Inr w \<Rightarrow> down_loop fuel originalFloat referenceLength w)
      else Some (Inr workingAmount))"

text \<open>\<^verbatim>\<open>RegistrationService.calculateSingleSuggestion\<close>.\<close>

definition calculateSingleSuggestion ::
    "nat \<Rightarrow> string \<Rightarrow> string \<Rightarrow> nat \<Rightarrow> direction \<Rightarrow> (js_error + string) option" where
  "calculateSingleSuggestion fuel normalizedAmount reference decimals dir =
     (let parts = split_on CHR ''.'' normalizedAmount;
          integerPart = elem_or [] parts 0
      in case elem parts 1 of
           None \<Rightarrow> Some (Inl TypeError)
         | Some decimalPart \<Rightarrow>
            (let referenceLength = length reference;
                 newDecimalPart = take (decimals - referenceLength) decimalPart @ reference;
                 workingAmount = integerPart @ ''.'' @ newDecimalPart;
                 originalFloat = parseFloat normalizedAmount
             in case dir of
                  Up \<Rightarrow> up_loop fuel originalFloat reference decimals workingAmount
                | Down \<Rightarrow> down_loop fuel originalFloat referenceLength workingAmount))"

text \<open>Step 2 of \<^verbatim>\<open>calculateAmountSuggestions\<close>: the requested amount truncated (never
  rounded) and padded to the asset's decimals.\<close>

definition normalizedAmount :: "string \<Rightarrow> nat \<Rightarrow> string" where
  "normalizedAmount requested_amount decimals =
     (let parts = split_on CHR ''.'' requested_amount;
          integerPart = elem_or [] parts 0;
          decimalPartRaw = elem_or [] parts 1;
          truncatedDecimal = padEnd decimals CHR ''0'' (take decimals decimalPartRaw)
      in integerPart @ ''.'' @ truncatedDecimal)"

text \<open>Step 3 of \<^verbatim>\<open>calculateAmountSuggestions\<close>: the suggestion in one direction for a
  requested amount.\<close>

definition amountSuggestion ::
    "nat \<Rightarrow> string \<Rightarrow> string \<Rightarrow> nat \<Rightarrow> direction \<Rightarrow> (js_error + string) option" where
  "amountSuggestion fuel requested_amount reference decimals dir =
     calculateSingleSuggestion fuel (normalizedAmount requested_amount decimals) reference decimals dir"

text \<open>\<^verbatim>\<open>RegistrationService.calculateSuggestedAmount\<close>.\<close>

definition calculateSuggestedAmount ::
    "nat \<Rightarrow> string \<Rightarrow> string \<Rightarrow> string \<Rightarrow> nat \<Rightarrow> (js_error + string) option" where
  "calculateSuggestedAmount fuel requestedAmount minimumAmount referenceId decimals =
     (if num_less (parseFloat requestedAmount) (parseFloat minimumAmount) then
        Some (Inr minimumAmount)
      else
        (let parts = split_on CHR ''.'' requestedAmount;
             integerPart = elem_or [] parts 0;
             decimalPart = elem_or [] parts 1;
             truncatedDecimal = padEnd decimals CHR ''0'' (take decimals decimalPart);
             normalizedRequested = integerPart @ ''.'' @ truncatedDecimal;
             referenceLength = length referenceId
         in if referenceLength > decimals then
              Some (Inr (integerPart @ ''.'' @ take decimals referenceId))
            else
              (let baseDecimal = take (decimals - referenceLength) truncatedDecimal;
                   candidate = integerPart @ ''.'' @ baseDecimal @ referenceId
               in up_loop fuel (parseFloat normalizedRequested) referenceId decimals candidate)))"

section \<open>Well-formed inputs\<close>

text \<open>
  An amount is a decimal numeral: a non-empty run of digits, optionally followed by a
  point and a (possibly empty) run of digits.  A reference ID is a non-empty string of
  decimal digits.
\<close>

definition is_amount :: "string \<Rightarrow> bool" where
  "is_amount a =
     (case split_on CHR ''.'' a of
        [ip] \<Rightarrow> ip \<noteq> [] \<and> is_digits ip
      | [ip, fp] \<Rightarrow> ip \<noteq> [] \<and> is_digits ip \<and> is_digits fp
      | _ \<Rightarrow> False)"

definition is_reference :: "string \<Rightarrow> bool" where
  "is_reference r = (r \<noteq> [] \<and> is_digits r)"

section \<open>Memo transformer\<close>

text \<open>\<^verbatim>\<open>MemoParserService.isSwapMemo\<close>.\<close>

definition isSwapMemo :: "string \<Rightarrow> bool" where
  "isSwapMemo memo =
     (let trimmed = trim memo in
      if trimmed = [] then False
      else let action = elem_or [] (split_on CHR '':'' trimmed) 0;
               actionLower = toLowerCase action
           in action = ''='' \<or> toLowerCase action = ''s'' \<or> actionLower = ''swap'')"

text \<open>
  The result of a memo modification.  The field \<open>errors\<close> is absent (\<open>None\<close>) in the
  result of a successful modification.  The log of changes, which no caller reads
  except to print it, is left out.
\<close>

record MemoModificationResult =
  success :: bool
  originalMemo :: string
  modifiedMemo :: string
  errors :: "string list option"

text \<open>
  The padding loop of \<^verbatim>\<open>buildSwapMemoWithAffiliate\<close>: with three, four or five fields
  each iteration pushes one empty string.  The loop is only reached with at least three
  fields.
\<close>

function pad_fields :: "string list \<Rightarrow> string list" where
  "pad_fields result =
     (if 3 \<le> length result \<and> length result < 6 then pad_fields (result @ [[]]) else result)"
  by pat_completeness auto
termination
  by (relation "measure (\<lambda>result. 6 - length result)") auto

declare pad_fields.simps [simp del]

text \<open>\<^verbatim>\<open>MemoParserService.buildSwapMemoWithAffiliate\<close>; \<open>Inl\<close> is its \<^verbatim>\<open>throw\<close>.\<close>

definition buildSwapMemoWithAffiliate :: "string list \<Rightarrow> string \<Rightarrow> string \<Rightarrow> js_error + string" where
  "buildSwapMemoWithAffiliate memoFields affiliateAddress affiliateFeeBp =
     (if length memoFields < 3 then Inl (Error ''Invalid swap memo: missing required fields'')
      else
        (let result = pad_fields memoFields;
             currentAffiliate = elem_or [] result 4;
             currentFee = elem_or [] result 5;
             result' =
               (if currentAffiliate = [] then
                  result[4 := affiliateAddress, 5 := affiliateFeeBp]
                else
                  result[4 := currentAffiliate @ ''/'' @ affiliateAddress,
                         5 := (if currentFee \<noteq> [] then currentFee @ ''/'' @ affiliateFeeBp
                               else affiliateFeeBp)])
         in Inr (join_with CHR '':'' result')))"

text \<open>\<^verbatim>\<open>MemoParserService.modifySwapMemoWithAffiliate\<close>.\<close>

definition modifySwapMemoWithAffiliate ::
    "string \<Rightarrow> string \<Rightarrow> string \<Rightarrow> js_error + MemoModificationResult" where
  "modifySwapMemoWithAffiliate memo affiliateAddress affiliateFeeBp =
     (if \<not> isSwapMemo memo then
        Inr \<lparr>success = False, originalMemo = memo, modifiedMemo = memo,
             errors = Some [''Not a valid swap memo format'']\<rparr>
      else
        (let errors1 =
               (if affiliateAddress = [] \<or> length (trim affiliateAddress) = 0
                then [''Affiliate address cannot be empty''] else []);
             feeNumber = parseInt affiliateFeeBp;
             errors2 =
               (if feeNumber = None \<or> num_less feeNumber (Some 0) \<or> num_less (Some 10000) feeNumber
                then errors1 @ [''Invalid affiliate fee: '' @ affiliateFeeBp @
                                ''. Must be 0-10000 basis points'']
                else errors1)
         in if length errors2 > 0 then
              Inr \<lparr>success = False, originalMemo = memo, modifiedMemo = memo,
                   errors = Some errors2\<rparr>
            else
              (let memoFields = split_on CHR '':'' (trim memo) in
               if length memoFields < 3 then
                 Inr \<lparr>success = False, originalMemo = memo, modifiedMemo = memo,
                      errors = Some [''Invalid swap memo: missing required fields'']\<rparr>
               else
                 (case buildSwapMemoWithAffiliate memoFields affiliateAddress affiliateFeeBp of
                    Inl e \<Rightarrow> Inl e
                  | Inr m \<Rightarrow>
                      Inr \<lparr>success = True, originalMemo = memo, modifiedMemo = m,
                           errors = None\<rparr>))))"

section \<open>Registration orchestrator\<close>

text \<open>The process environment: a variable is unset (\<open>None\<close>) or holds a string.\<close>

record environment =
  INJECT_AFFILIATE_IN_SWAPS :: "string option"
  AFFILIATE_THORNAME :: "string option"
  AFFILIATE_FEE_BP :: "string option"

text \<open>\<^verbatim>\<open>x || dflt\<close> on a string that may be undefined: the default replaces an undefined
  and an empty string.\<close>

definition or_default :: "string option \<Rightarrow> string \<Rightarrow> string" where
  "or_default x dflt = (case x of None \<Rightarrow> dflt | Some s \<Rightarrow> if s = [] then dflt else s)"

text \<open>\<^verbatim>\<open>RegistrationService.processAffiliateInjection\<close>; its \<^verbatim>\<open>catch\<close> returns the
  original memo.\<close>

definition processAffiliateInjection :: "environment \<Rightarrow> string \<Rightarrow> string" where
  "processAffiliateInjection env original =
     (let injectAffiliate = (INJECT_AFFILIATE_IN_SWAPS env = Some ''true'') in
      if \<not> injectAffiliate then original
      else
        (let affiliateThorname = AFFILIATE_THORNAME env;
             affiliateFeeBp = or_default (AFFILIATE_FEE_BP env) ''5''
         in case affiliateThorname of
              None \<Rightarrow> original
            | Some thorname \<Rightarrow>
                if thorname = [] then original
                else if \<not> isSwapMemo original then original
                else
                  (case modifySwapMemoWithAffiliate original thorname affiliateFeeBp of
                     Inl e \<Rightarrow> original
                   | Inr modificationResult \<Rightarrow>
                       if success modificationResult then modifiedMemo modificationResult
                       else original)))"

subsection \<open>Collaborators\<close>

text \<open>
  The chain client: \<^verbatim>\<open>TransactionService.broadcastTransaction\<close> and
  \<^verbatim>\<open>ThorchainApiService.getMemoReference\<close> either throw an error with a message
  (\<open>Inl\<close>) or return a response.  A field of the JSON body of a memo reference may be
  missing (\<open>None\<close>).
\<close>

record TransactionParams =
  tp_asset :: string
  tp_amount :: string
  tp_useMsgDeposit :: bool
  tp_memo :: string

record TransactionResponse =
  code :: int
  transactionHash :: string
  rawLog :: string

record MemoReference =
  mr_asset :: "string option"
  mr_memo :: "string option"
  mr_reference :: "string option"
  mr_height :: "string option"
  mr_registration_hash :: "string option"
  mr_registered_by :: "string option"

record collaborators =
  assetDecimals :: nat
  broadcastTransaction :: "TransactionParams \<Rightarrow> string + TransactionResponse"
  getMemoReference :: "string \<Rightarrow> string + MemoReference"
  newId :: string

subsection \<open>The store\<close>

datatype registration_status = Pending | Confirmed | Failed

text \<open>The argument of \<^verbatim>\<open>DatabaseService.createRegistration\<close>.\<close>

record RegistrationRecord =
  txHash :: string
  rec_asset :: string
  rec_memo :: string
  status :: "registration_status option"
  userAddress :: "string option"
  referenceId :: "string option"
  height :: "string option"
  registrationHash :: "string option"
  registeredBy :: "string option"

text \<open>A row of the table \<^verbatim>\<open>registrations\<close>; a column that is \<^verbatim>\<open>NULL\<close> is \<open>None\<close>.\<close>

record registration_row =
  row_id :: string
  tx_hash :: string
  row_asset :: string
  row_memo :: string
  row_status :: registration_status
  user_address :: "string option"
  reference_id :: "string option"
  row_height :: "string option"
  registration_hash :: "string option"
  registered_by :: "string option"

datatype db_type = Postgresql | Sqlite | NoDatabase

record database =
  dbType :: db_type
  rows :: "registration_row list"

text \<open>\<^verbatim>\<open>x || null\<close> on a string that may be undefined.\<close>

definition or_null :: "string option \<Rightarrow> string option" where
  "or_null x = (case x of None \<Rightarrow> None | Some s \<Rightarrow> if s = [] then None else Some s)"

text \<open>
  \<^verbatim>\<open>DatabaseService.createRegistration\<close>: without a database a mock identifier is
  returned and nothing is stored; otherwise one row is inserted, and the insertion throws
  when the transaction hash is already present (the column is \<^verbatim>\<open>UNIQUE\<close>).  The SQLite
  branch writes \<^verbatim>\<open>field || null\<close>, the PostgreSQL branch the fields as they are.  The
  identifier of the new row is the database's choice.
\<close>

definition createRegistration ::
    "database \<Rightarrow> string \<Rightarrow> RegistrationRecord \<Rightarrow> js_error + string \<times> database" where
  "createRegistration db fresh record =
     (case dbType db of
        NoDatabase \<Rightarrow> Inr (''mock-'' @ fresh, db)
      | Sqlite \<Rightarrow>
          if txHash record \<in> set (map tx_hash (rows db)) then
            Inl (Error ''UNIQUE constraint failed: registrations.tx_hash'')
          else
            Inr (fresh, db\<lparr>rows := rows db @
              [\<lparr>row_id = fresh, tx_hash = txHash record, row_asset = rec_asset record,
                row_memo = rec_memo record,
                row_status = (case status record of None \<Rightarrow> Pending | Some s \<Rightarrow> s),
                user_address = or_null (userAddress record),
                reference_id = or_null (referenceId record),
                row_height = or_null (height record),
                registration_hash = or_null (registrationHash record),
                registered_by = or_null (registeredBy record)\<rparr>]\<rparr>)
      | Postgresql \<Rightarrow>
          if txHash record \<in> set (map tx_hash (rows db)) then
            Inl (Error ''duplicate key value violates unique constraint'')
          else
            Inr (fresh, db\<lparr>rows := rows db @
              [\<lparr>row_id = fresh, tx_hash = txHash record, row_asset = rec_asset record,
                row_memo = rec_memo record,
                row_status = (case status record of None \<Rightarrow> Pending | Some s \<Rightarrow> s),
                user_address = userAddress record,
                reference_id = referenceId record,
                row_height = height record,
                registration_hash = registrationHash record,
                registered_by = registeredBy record\<rparr>]\<rparr>))"

subsection \<open>Registration\<close>

record RegistrationRequest =
  req_asset :: string
  req_memo :: string
  requested_in_asset_amount :: "string option"

record RegistrationResponse =
  internal_api_id :: string
  rsp_asset :: "string option"
  rsp_memo :: "string option"
  rsp_reference :: string
  reference_length :: nat
  rsp_height :: "string option"
  rsp_registration_hash :: "string option"
  rsp_registered_by :: "string option"
  rsp_txHash :: string
  decimals :: nat
  minimum_amount_to_send :: string
  suggested_in_asset_amount :: "string option"

text \<open>\<^verbatim>\<open>MemolessService.registerMemo\<close>: the broadcast of the registration memo.\<close>

definition broadcastRegistration ::
    "(TransactionParams \<Rightarrow> string + TransactionResponse) \<Rightarrow> string \<Rightarrow> string \<Rightarrow> js_error + string" where
  "broadcastRegistration broadcast asset memo =
     (let registrationMemo = ''REFERENCE:'' @ asset @ '':'' @ memo;
          transactionParams = \<lparr>tp_asset = ''THOR.RUNE'', tp_amount = ''0'',
                                tp_useMsgDeposit = True, tp_memo = registrationMemo\<rparr>
      in case broadcast transactionParams of
           Inl msg \<Rightarrow> Inl (Error (''Failed to register memo: '' @ msg))
         | Inr result \<Rightarrow>
             if code result \<noteq> 0 then
               Inl (Error (''Failed to register memo: '' @ ''Registration failed: '' @ rawLog result))
             else Inr (transactionHash result))"

text \<open>
  \<^verbatim>\<open>RegistrationService.registerMemo\<close>.  The result is the store after the call and what
  the call returns or throws; \<open>None\<close> means that the loop of step 11 is still running
  when the bound \<open>fuel\<close> is reached.  The soft balance check of step 3 (whose own
  \<^verbatim>\<open>catch\<close> swallows its \<^verbatim>\<open>throw\<close>), the notifications and the logging touch neither
  the store nor the result and are left out.  Reading the length of a missing reference
  in step 8 throws a \<^verbatim>\<open>TypeError\<close>.
\<close>

definition registerMemo ::
    "nat \<Rightarrow> environment \<Rightarrow> collaborators \<Rightarrow> database \<Rightarrow> RegistrationRequest \<Rightarrow>
       database \<times> (js_error + RegistrationResponse) option" where
  "registerMemo fuel env col db request =
     (let processedMemo = processAffiliateInjection env (req_memo request) in
      case broadcastRegistration (broadcastTransaction col) (req_asset request) processedMemo of
        Inl e \<Rightarrow> (db, Some (Inl e))
      | Inr hash \<Rightarrow>
         (case getMemoReference col hash of
            Inl msg \<Rightarrow>
              (db, Some (Inl (Error
                 (''Registration successful but failed to retrieve memo details: '' @ msg))))
          | Inr memoReference \<Rightarrow>
             (case mr_reference memoReference of
                None \<Rightarrow> (db, Some (Inl TypeError))
              | Some reference \<Rightarrow>
                 (let minimumAmountToSend =
                        calculateMinimumAmountToSend reference (assetDecimals col)
                  in case createRegistration db (newId col)
                            \<lparr>txHash = hash, rec_asset = req_asset request,
                             rec_memo = req_memo request, status = Some Confirmed,
                             userAddress = None,
                             referenceId = Some reference,
                             height = mr_height memoReference,
                             registrationHash = mr_registration_hash memoReference,
                             registeredBy = mr_registered_by memoReference\<rparr> of
                       Inl e \<Rightarrow> (db, Some (Inl e))
                     | Inr (registrationId, db') \<Rightarrow>
                        (let suggestion =
                               (case requested_in_asset_amount request of
                                  None \<Rightarrow> Some None
                                | Some requested \<Rightarrow>
                                    if requested = [] then Some None
                                    else
                                      (case calculateSuggestedAmount fuel requested
                                              minimumAmountToSend reference (assetDecimals col) of
                                         None \<Rightarrow> None
                                       | Some (Inl e) \<Rightarrow> Some None
                                       | Some (Inr s) \<Rightarrow> Some (or_null (Some s))))
                         in case suggestion of
                              None \<Rightarrow> (db', None)
                            | Some suggestedAmount \<Rightarrow>
                                (db', Some (Inr
                                   \<lparr>internal_api_id = registrationId,
                                    rsp_asset = mr_asset memoReference,
                                    rsp_memo = mr_memo memoReference,
                                    rsp_reference = reference,
                                    reference_length = length reference,
                                    rsp_height = mr_height memoReference,
                                    rsp_registration_hash = mr_registration_hash memoReference,
                                    rsp_registered_by = mr_registered_by memoReference,
                                    rsp_txHash = hash,
                                    decimals = assetDecimals col,
                                    minimum_amount_to_send = minimumAmountToSend,
                                    suggested_in_asset_amount = suggestedAmount\<rparr>)))))))"

section \<open>Properties of the string functions\<close>

lemma split_on_not_Nil [simp]: "split_on c s \<noteq> []"
  by (induction s) (auto split: list.splits)

lemma split_on_no_sep: "c \<notin> set s \<Longrightarrow> split_on c s = [s]"
  by (induction s) auto

lemma split_on_append: "c \<notin> set xs \<Longrightarrow> split_on c (xs @ c # ys) = xs # split_on c ys"
  by (induction xs) auto

lemma split_on_two: "c \<notin> set xs \<Longrightarrow> c \<notin> set ys \<Longrightarrow> split_on c (xs @ c # ys) = [xs, ys]"
  by (simp add: split_on_append split_on_no_sep)

lemma join_split: "join_with c (split_on c s) = s"
proof (induction s)
  case Nil
  show ?case by simp
next
  case (Cons x xs)
  obtain y ys where sp: "split_on c xs = y # ys"
    by (cases "split_on c xs") auto
  show ?case
  proof (cases "x = c")
    case True
    with Cons sp show ?thesis by simp
  next
    case False
    with Cons sp show ?thesis by (cases ys) auto
  qed
qed

lemma split_on_sep_free: "p \<in> set (split_on c s) \<Longrightarrow> c \<notin> set p"
  by (induction s arbitrary: p) (auto split: if_splits list.splits)

lemma elem_simps [simp]:
  "elem (x # xs) 0 = Some x" "elem [x] (Suc 0) = None" "elem (x # y # ys) (Suc 0) = Some y"
  by (simp_all add: elem_def)

lemma elem_or_simps [simp]:
  "elem_or d (x # xs) 0 = x" "elem_or d [x] (Suc 0) = d" "elem_or d (x # y # ys) (Suc 0) = y"
  by (simp_all add: elem_or_def)

lemma slice_last_suffix: "r \<noteq> [] \<Longrightarrow> slice_last (length r) (p @ r) = r"
  by (simp add: slice_last_def)

lemma is_digit_not_dot: "is_digit c \<Longrightarrow> c \<noteq> CHR ''.''"
  by (auto simp: is_digit_def)

lemma is_digits_no_dot: "is_digits s \<Longrightarrow> CHR ''.'' \<notin> set s"
  by (auto simp: is_digits_def list_all_iff dest: is_digit_not_dot)

lemma is_digits_simps [simp]:
  "is_digits []" "is_digits (c # s) = (is_digit c \<and> is_digits s)"
  "is_digits (s @ t) = (is_digits s \<and> is_digits t)"
  "is_digits (replicate n c) = (n = 0 \<or> is_digit c)"
  by (auto simp: is_digits_def list_all_iff)

lemma is_digits_take: "is_digits s \<Longrightarrow> is_digits (take n s)"
  by (auto simp: is_digits_def list_all_iff dest: in_set_takeD)

lemma is_digits_drop: "is_digits s \<Longrightarrow> is_digits (drop n s)"
  by (auto simp: is_digits_def list_all_iff dest: in_set_dropD)

lemma is_digit_zero [simp]: "is_digit CHR ''0''" "is_digit CHR ''1''" "is_digit CHR ''9''"
  by (simp_all add: is_digit_def)

lemma is_amount_cases:
  assumes "is_amount a"
  obtains ip where "a = ip" "ip \<noteq> []" "is_digits ip" "split_on CHR ''.'' a = [ip]"
  | ip fp where "a = ip @ CHR ''.'' # fp" "ip \<noteq> []" "is_digits ip" "is_digits fp"
      "split_on CHR ''.'' a = [ip, fp]"
proof -
  have j: "join_with CHR ''.'' (split_on CHR ''.'' a) = a" by (rule join_split)
  show ?thesis
  proof (cases "split_on CHR ''.'' a")
    case Nil then show ?thesis using assms by (simp add: is_amount_def)
  next
    case (Cons ip rest)
    show ?thesis
    proof (cases rest)
      case Nil
      with Cons assms j that(1) show ?thesis by (auto simp: is_amount_def)
    next
      case (Cons fp rest2)
      show ?thesis
      proof (cases rest2)
        case Nil
        with Cons \<open>split_on CHR ''.'' a = ip # rest\<close> assms j that(2) show ?thesis
          by (auto simp: is_amount_def)
      next
        case (Cons x xs)
        with \<open>rest = fp # rest2\<close> \<open>split_on CHR ''.'' a = ip # rest\<close> assms show ?thesis
          by (simp add: is_amount_def)
      qed
    qed
  qed
qed

section \<open>Properties of the number functions\<close>



lemma is_digit_not_space: "is_digit c \<Longrightarrow> \<not> is_space c"
  by (auto simp: is_digit_def is_space_def)

lemma is_digit_not_sign: "is_digit c \<Longrightarrow> c \<noteq> CHR ''-'' \<and> c \<noteq> CHR ''+'' \<and> c \<noteq> CHR ''x'' \<and> c \<noteq> CHR ''X''"
  by (auto simp: is_digit_def)


lemma takeWhile_digits: "is_digits s \<Longrightarrow> takeWhile is_digit s = s"
  by (auto simp: is_digits_def list_all_iff takeWhile_eq_all_conv)

lemma dropWhile_digits: "is_digits s \<Longrightarrow> dropWhile is_digit s = []"
  by (auto simp: is_digits_def list_all_iff)

lemma radix_value_Nil [simp]: "radix_value R [] = 0"
  by (simp add: radix_value_def)

lemma radix_value_snoc: "radix_value R (s @ [c]) = radix_value R s * R + digit_value c"
  by (simp add: radix_value_def digit_value_def)

lemma radix_value_append:
  "radix_value R (s @ t) = radix_value R s * R ^ length t + radix_value R t"
proof (induction t rule: rev_induct)
  case Nil
  show ?case by simp
next
  case (snoc c t)
  have "radix_value R (s @ t @ [c]) = radix_value R (s @ t) * R + digit_value c"
    using radix_value_snoc [of R "s @ t" c] by simp
  with snoc show ?case
    by (simp add: radix_value_snoc algebra_simps)
qed

lemma radix_value_Cons: "radix_value R (c # s) = digit_value c * R ^ length s + radix_value R s"
  using radix_value_append [of R "[c]" s] radix_value_snoc [of R "[]" c] by simp

lemma digit_value_simps [simp]: "digit_value CHR ''0'' = 0" "digit_value CHR ''1'' = 1" "digit_value CHR ''9'' = 9"
  by (simp_all add: digit_value_def digit_of_def)


lemma radix_value_zeros [simp]: "radix_value R (replicate n CHR ''0'') = 0"
  by (induction n) (simp_all add: radix_value_Cons)




lemma parseFloat_point:
  assumes "ip \<noteq> []" and "is_digits ip" and "is_digits fp"
  shows "parseFloat (ip @ CHR ''.'' # fp) =
           Some (of_nat (radix_value 10 ip) + of_nat (radix_value 10 fp) / 10 ^ length fp)"
proof -
  let ?s = "ip @ CHR ''.'' # fp"
  obtain c t where s: "ip = c # t" using assms(1) by (cases ip) auto
  with assms(2) have c: "is_digit c" by (auto simp: is_digits_def)
  have sp: "dropWhile is_space ?s = ?s" using s c by (simp add: is_digit_not_space)
  have sg: "take 1 ?s \<noteq> ''-''" "take 1 ?s \<noteq> ''+''" using s is_digit_not_sign [OF c] by auto
  have nd: "\<not> is_digit CHR ''.''" by (simp add: is_digit_def)
  have al: "\<And>x. x \<in> set ip \<Longrightarrow> is_digit x" using assms(2) by (auto simp: is_digits_def list_all_iff)
  have tw: "takeWhile is_digit ?s = ip"
    using al nd by (simp add: takeWhile_append2)
  have dw: "dropWhile is_digit ?s = CHR ''.'' # fp"
    using al nd by (simp add: dropWhile_append2)
  show ?thesis
    unfolding parseFloat_def Let_def sp using sg tw dw assms by (simp add: takeWhile_digits)
qed









section \<open>Reference validation in the preflight path\<close>

text \<open>
  C1. The claim: for every amount, reference ID and decimals, the preflight check
  \<open>checkReferenceInAmount\<close> returns what the codec predicate
  \<open>validateAmountToReference\<close> returns.  The preflight check never truncates or pads
  to the asset's decimals.  The integration guide of the repository lists the amount
  \<^verbatim>\<open>99.12345\<close> as invalid for reference \<^verbatim>\<open>12345\<close> at 6 decimals (its last five decimals
  are \<^verbatim>\<open>23450\<close>); the codec predicate rejects it and the preflight check accepts it.
\<close>

theorem preflight_check_ignores_decimals:
  "checkReferenceInAmount ''99.12345'' ''12345'' 6 \<and>
   \<not> validateAmountToReference ''99.12345'' ''12345'' 6"
  by code_simp

text \<open>
  C9. The claim: for every reference ID \<open>r\<close> and decimals \<open>d\<close>, the minimum amount
  of \<open>calculateMinimumAmountToSend\<close> passes the preflight reference check.  It fails when
  the reference is longer than the decimals, where the minimum amount holds a truncated
  reference.
\<close>

theorem minimum_amount_fails_preflight_long_reference:
  "\<not> checkReferenceInAmount (calculateMinimumAmountToSend ''12345'' 4) ''12345'' 4"
  by code_simp

text \<open>
  C9, amended: for every reference ID \<open>r\<close> (a non-empty digit string) and decimals \<open>d\<close>
  with \<open>length r \<le> d\<close>, the minimum amount passes the preflight reference check.
\<close>

theorem minimum_amount_passes_preflight:
  assumes "is_reference r" and "length r \<le> d"
  shows "checkReferenceInAmount (calculateMinimumAmountToSend r d) r d"
proof -
  from assms(1) have ne: "r \<noteq> []" and nd: "CHR ''.'' \<notin> set r"
    by (auto simp: is_reference_def dest: is_digits_no_dot)
  show ?thesis
  proof (cases "length r = d")
    case True
    have sp: "split_on CHR ''.'' (''1'' @ CHR ''.'' # r) = [''1'', r]"
      using nd by (intro split_on_two) auto
    have "calculateMinimumAmountToSend r d = ''1'' @ CHR ''.'' # r"
      using True by (simp add: calculateMinimumAmountToSend_def)
    then show ?thesis
      using sp ne slice_last_suffix [of r "[]"] by (simp add: checkReferenceInAmount_def)
  next
    case False
    with assms(2) have lt: "length r < d" by simp
    let ?dp = "replicate (d - length r - 1) CHR ''0'' @ CHR ''1'' # r"
    have sp: "split_on CHR ''.'' (''0'' @ CHR ''.'' # ?dp) = [''0'', ?dp]"
      using nd by (intro split_on_two) auto
    have m: "calculateMinimumAmountToSend r d = ''0'' @ CHR ''.'' # ?dp"
      using lt by (simp add: calculateMinimumAmountToSend_def Let_def nat_diff_distrib)
    have sl: "slice_last (length r) ?dp = r"
      using slice_last_suffix [OF ne, of "replicate (d - length r - 1) CHR ''0'' @ ''1''"] by simp
    show ?thesis
      unfolding m checkReferenceInAmount_def Let_def sp using sl by simp
  qed
qed

text \<open>
  C9, an instance: the minimum amount for reference \<^verbatim>\<open>00008\<close> at 8 decimals is
  \<^verbatim>\<open>0.00100008\<close>, and it passes the preflight reference check.
\<close>

theorem minimum_amount_passes_preflight_witness:
  "is_reference ''00008'' \<and> length ''00008'' \<le> (8::nat) \<and>
   calculateMinimumAmountToSend ''00008'' 8 = ''0.00100008'' \<and>
   checkReferenceInAmount ''0.00100008'' ''00008'' 8"
proof -
  have h: "is_reference ''00008''" by (simp add: is_reference_def is_digit_def)
  have l: "length ''00008'' \<le> (8::nat)" by simp
  have m: "calculateMinimumAmountToSend ''00008'' 8 = ''0.00100008''" by code_simp
  from minimum_amount_passes_preflight [OF h l] h l m show ?thesis by simp
qed

section \<open>Raw amounts\<close>



section \<open>Affiliate injection\<close>

lemma trim_Nil [simp]: "trim [] = []"
  by (simp add: trim_def)

lemma pad_fields_eq: "3 \<le> length fs \<Longrightarrow> pad_fields fs = fs @ replicate (6 - length fs) []"
proof (induction fs rule: pad_fields.induct)
  case (1 result)
  show ?case
  proof (cases "length result < 6")
    case True
    with 1 have "pad_fields (result @ [[]]) = (result @ [[]]) @ replicate (6 - length (result @ [[]])) []"
      by simp
    moreover from True have "replicate (6 - length result) [] = ([]::string) # replicate (5 - length result) []"
      by (cases "6 - length result") (auto simp: Suc_diff_le)
    ultimately show ?thesis using True 1(2)
      by (subst pad_fields.simps) simp
  next
    case False
    then show ?thesis by (subst pad_fields.simps) simp
  qed
qed

lemma elem_or_nth: "i < length xs \<Longrightarrow> elem_or d xs i = xs ! i"
  by (simp add: elem_or_def elem_def)

lemma build_swap_memo:
  assumes "3 \<le> length fs" and "p = fs @ replicate (6 - length fs) []"
  shows "buildSwapMemoWithAffiliate fs a f =
           Inr (join_with CHR '':''
                  (p[4 := (if p ! 4 = [] then a else p ! 4 @ ''/'' @ a),
                     5 := (if p ! 4 = [] \<or> p ! 5 = [] then f else p ! 5 @ ''/'' @ f)]))"
proof -
  have len: "6 \<le> length p" using assms by simp
  have pf: "pad_fields fs = p" using assms pad_fields_eq by simp
  have e4: "elem_or [] p 4 = p ! 4" and e5: "elem_or [] p 5 = p ! 5"
    using len by (simp_all add: elem_or_nth)
  show ?thesis
    using assms(1) by (simp add: buildSwapMemoWithAffiliate_def Let_def pf e4 e5)
qed

text \<open>
  C6. The claim: for every swap memo, every non-empty affiliate address and every fee in
  \<open>[0, 10000]\<close>, \<open>modifySwapMemoWithAffiliate\<close> pads the memo to six fields and then
  sets the affiliate and fee fields, or appends \<^verbatim>\<open>/address\<close> and \<^verbatim>\<open>/fee\<close> to them.  Two
  branches of the code depart from it: a swap memo of fewer than three fields is
  returned unchanged with \<open>success = False\<close>, and when the memo names an affiliate but no
  fee, the fee field becomes the new fee without a separator.
\<close>

theorem affiliate_injection_short_memo_and_missing_fee:
  "isSwapMemo ''=:BTC.BTC'' \<and>
   modifySwapMemoWithAffiliate ''=:BTC.BTC'' ''-'' ''5'' =
     Inr \<lparr>success = False, originalMemo = ''=:BTC.BTC'', modifiedMemo = ''=:BTC.BTC'',
          errors = Some [''Invalid swap memo: missing required fields'']\<rparr> \<and>
   modifySwapMemoWithAffiliate ''=:BTC.BTC:bc1quser123:1000:tom'' ''-'' ''5'' =
     Inr \<lparr>success = True, originalMemo = ''=:BTC.BTC:bc1quser123:1000:tom'',
          modifiedMemo = ''=:BTC.BTC:bc1quser123:1000:tom/-:5'', errors = None\<rparr>"
  by code_simp

text \<open>
  C6, amended: for every swap memo of at least three fields (after trimming), every
  affiliate address that is not blank and every fee that \<open>parseInt\<close> reads as a number
  in \<open>[0, 10000]\<close>, the modification succeeds and the modified memo is the memo's fields,
  padded with empty strings to six, joined by colons, where the affiliate field (index 4)
  is the new address if it was empty and \<^verbatim>\<open>old/address\<close> otherwise, and the fee field
  (index 5) is the new fee if the affiliate field or the fee field was empty and
  \<^verbatim>\<open>old/fee\<close> otherwise.  Fields beyond the sixth are kept.
\<close>

theorem affiliate_injection_rewrites_memo:
  assumes "isSwapMemo m" and "trim a \<noteq> []"
      and "parseInt f = Some n" and "0 \<le> n" and "n \<le> 10000"
      and "fs = split_on CHR '':'' (trim m)" and "3 \<le> length fs"
      and "p = fs @ replicate (6 - length fs) []"
  shows "modifySwapMemoWithAffiliate m a f =
           Inr \<lparr>success = True, originalMemo = m,
                modifiedMemo = join_with CHR '':''
                  (p[4 := (if p ! 4 = [] then a else p ! 4 @ ''/'' @ a),
                     5 := (if p ! 4 = [] \<or> p ! 5 = [] then f else p ! 5 @ ''/'' @ f)]),
                errors = None\<rparr>"
proof -
  from assms(2) have a: "a \<noteq> []" by auto
  have fee: "\<not> (parseInt f = None \<or> num_less (parseInt f) (Some 0) \<or> num_less (Some 10000) (parseInt f))"
    using assms(3-5) by (simp add: num_less_def)
  have b: "buildSwapMemoWithAffiliate (split_on CHR '':'' (trim m)) a f =
           Inr (join_with CHR '':''
                  (p[4 := (if p ! 4 = [] then a else p ! 4 @ ''/'' @ a),
                     5 := (if p ! 4 = [] \<or> p ! 5 = [] then f else p ! 5 @ ''/'' @ f)]))"
    using build_swap_memo [of fs p a f] assms(6-8) by simp
  have l: "\<not> length (split_on CHR '':'' (trim m)) < 3" using assms(6,7) by simp
  show ?thesis
    unfolding modifySwapMemoWithAffiliate_def Let_def
    using assms(1,2) a fee l by (simp add: b)
qed

text \<open>
  C6, two instances: the injection into a memo without limit and affiliate, and the
  append to a memo with one affiliate.
\<close>

theorem affiliate_injection_rewrites_memo_witness:
  "isSwapMemo ''=:BTC.BTC:bc1quser123'' \<and> trim ''-'' \<noteq> [] \<and> parseInt ''5'' = Some 5 \<and>
   modifySwapMemoWithAffiliate ''=:BTC.BTC:bc1quser123'' ''-'' ''5'' =
     Inr \<lparr>success = True, originalMemo = ''=:BTC.BTC:bc1quser123'',
          modifiedMemo = ''=:BTC.BTC:bc1quser123::-:5'', errors = None\<rparr> \<and>
   isSwapMemo ''=:BTC.BTC:bc1quser123:1000:tom:10'' \<and>
   modifySwapMemoWithAffiliate ''=:BTC.BTC:bc1quser123:1000:tom:10'' ''-'' ''5'' =
     Inr \<lparr>success = True, originalMemo = ''=:BTC.BTC:bc1quser123:1000:tom:10'',
          modifiedMemo = ''=:BTC.BTC:bc1quser123:1000:tom/-:10/5'', errors = None\<rparr>"
proof -
  have s1: "isSwapMemo ''=:BTC.BTC:bc1quser123''" by code_simp
  have s2: "isSwapMemo ''=:BTC.BTC:bc1quser123:1000:tom:10''" by code_simp
  have t: "trim ''-'' \<noteq> []" by code_simp
  have f: "parseInt ''5'' = Some 5" by code_simp
  have f1: "[''='', ''BTC.BTC'', ''bc1quser123''] = split_on CHR '':'' (trim ''=:BTC.BTC:bc1quser123'')"
    by code_simp
  have f2: "[''='', ''BTC.BTC'', ''bc1quser123'', ''1000'', ''tom'', ''10''] =
              split_on CHR '':'' (trim ''=:BTC.BTC:bc1quser123:1000:tom:10'')"
    by code_simp
  have r1: "modifySwapMemoWithAffiliate ''=:BTC.BTC:bc1quser123'' ''-'' ''5'' =
     Inr \<lparr>success = True, originalMemo = ''=:BTC.BTC:bc1quser123'',
          modifiedMemo = ''=:BTC.BTC:bc1quser123::-:5'', errors = None\<rparr>"
    using affiliate_injection_rewrites_memo [OF s1 t f _ _ f1, of "[''='', ''BTC.BTC'', ''bc1quser123'', [], [], []]"]
    by (simp add: numeral_3_eq_3)
  have r2: "modifySwapMemoWithAffiliate ''=:BTC.BTC:bc1quser123:1000:tom:10'' ''-'' ''5'' =
     Inr \<lparr>success = True, originalMemo = ''=:BTC.BTC:bc1quser123:1000:tom:10'',
          modifiedMemo = ''=:BTC.BTC:bc1quser123:1000:tom/-:10/5'', errors = None\<rparr>"
    using affiliate_injection_rewrites_memo [OF s2 t f _ _ f2, of "[''='', ''BTC.BTC'', ''bc1quser123'', ''1000'', ''tom'', ''10'']"]
    by simp
  from s1 s2 t f r1 r2 show ?thesis by blast
qed

text \<open>
  C7. For every memo and every affiliate input that fails validation (a memo that is not
  a swap, an empty or blank affiliate address, a fee that is not a number or lies outside
  \<open>[0, 10000]\<close>, and also a swap memo of fewer than three fields),
  \<open>modifySwapMemoWithAffiliate\<close> returns \<open>success = False\<close> with the memo unchanged;
  \<open>processAffiliateInjection\<close>, configured with that address and fee, returns the
  original memo; and \<open>registerMemo\<close> behaves as it does with injection switched off.
\<close>

theorem affiliate_failure_keeps_memo:
  assumes "\<not> isSwapMemo m \<or> a = [] \<or> trim a = [] \<or> parseInt f = None \<or>
           (\<exists>n. parseInt f = Some n \<and> (n < 0 \<or> 10000 < n)) \<or>
           length (split_on CHR '':'' (trim m)) < 3"
      and "AFFILIATE_THORNAME env = Some a"
      and "or_default (AFFILIATE_FEE_BP env) ''5'' = f"
      and "req_memo request = m"
  shows "(\<exists>r. modifySwapMemoWithAffiliate m a f = Inr r \<and> \<not> success r \<and> modifiedMemo r = m) \<and>
         processAffiliateInjection env m = m \<and>
         registerMemo fuel env col db request =
           registerMemo fuel (env\<lparr>INJECT_AFFILIATE_IN_SWAPS := None\<rparr>) col db request"
proof -
  have m1: "\<exists>r. modifySwapMemoWithAffiliate m a f = Inr r \<and> \<not> success r \<and> modifiedMemo r = m"
  proof (cases "isSwapMemo m")
    case False
    then show ?thesis by (simp add: modifySwapMemoWithAffiliate_def)
  next
    case swap: True
    show ?thesis
    proof (cases "a = [] \<or> length (trim a) = 0 \<or> parseInt f = None \<or>
        num_less (parseInt f) (Some 0) \<or> num_less (Some 10000) (parseInt f)")
      case True
      then show ?thesis
        using swap unfolding modifySwapMemoWithAffiliate_def Let_def by auto
    next
      case False
      with assms(1) swap have "length (split_on CHR '':'' (trim m)) < 3"
        by (auto simp: num_less_def)
      with False show ?thesis
        using swap unfolding modifySwapMemoWithAffiliate_def Let_def by auto
    qed
  qed
  then obtain r where r: "modifySwapMemoWithAffiliate m a f = Inr r" "\<not> success r" by blast
  have p1: "processAffiliateInjection env m = m"
    using assms(2,3) r by (simp add: processAffiliateInjection_def Let_def)
  have p2: "processAffiliateInjection (env\<lparr>INJECT_AFFILIATE_IN_SWAPS := None\<rparr>) m = m"
    by (simp add: processAffiliateInjection_def)
  have "registerMemo fuel env col db request =
          registerMemo fuel (env\<lparr>INJECT_AFFILIATE_IN_SWAPS := None\<rparr>) col db request"
    unfolding registerMemo_def assms(4) p1 p2 ..
  with m1 p1 show ?thesis by blast
qed

text \<open>
  C7, an instance: a blank affiliate name is configured, the swap memo is returned
  unchanged, and the registration runs as with injection switched off.
\<close>

theorem affiliate_failure_keeps_memo_witness:
  "isSwapMemo ''=:BTC.BTC:bc1quser123'' \<and> trim '' '' = [] \<and>
   (\<exists>r. modifySwapMemoWithAffiliate ''=:BTC.BTC:bc1quser123'' '' '' ''5'' = Inr r \<and>
        \<not> success r \<and> modifiedMemo r = ''=:BTC.BTC:bc1quser123'') \<and>
   processAffiliateInjection
     \<lparr>INJECT_AFFILIATE_IN_SWAPS = Some ''true'', AFFILIATE_THORNAME = Some '' '',
      AFFILIATE_FEE_BP = None\<rparr> ''=:BTC.BTC:bc1quser123'' = ''=:BTC.BTC:bc1quser123'' \<and>
   registerMemo 1
     \<lparr>INJECT_AFFILIATE_IN_SWAPS = Some ''true'', AFFILIATE_THORNAME = Some '' '',
      AFFILIATE_FEE_BP = None\<rparr>
     \<lparr>assetDecimals = 8,
      broadcastTransaction = (\<lambda>p. Inr \<lparr>code = 0, transactionHash = ''AB12'', rawLog = []\<rparr>),
      getMemoReference = (\<lambda>h. Inl ''Request failed with status code 404''),
      newId = ''id1''\<rparr>
     \<lparr>dbType = Sqlite, rows = []\<rparr>
     \<lparr>req_asset = ''BTC.BTC'', req_memo = ''=:BTC.BTC:bc1quser123'',
      requested_in_asset_amount = None\<rparr> =
   registerMemo 1
     \<lparr>INJECT_AFFILIATE_IN_SWAPS = None, AFFILIATE_THORNAME = Some '' '',
      AFFILIATE_FEE_BP = None\<rparr>
     \<lparr>assetDecimals = 8,
      broadcastTransaction = (\<lambda>p. Inr \<lparr>code = 0, transactionHash = ''AB12'', rawLog = []\<rparr>),
      getMemoReference = (\<lambda>h. Inl ''Request failed with status code 404''),
      newId = ''id1''\<rparr>
     \<lparr>dbType = Sqlite, rows = []\<rparr>
     \<lparr>req_asset = ''BTC.BTC'', req_memo = ''=:BTC.BTC:bc1quser123'',
      requested_in_asset_amount = None\<rparr>"
proof -
  have s: "isSwapMemo ''=:BTC.BTC:bc1quser123''" by code_simp
  have t: "trim '' '' = []" by code_simp
  have h: "\<not> isSwapMemo ''=:BTC.BTC:bc1quser123'' \<or> '' '' = [] \<or> trim '' '' = [] \<or>
           parseInt ''5'' = None \<or> (\<exists>n. parseInt ''5'' = Some n \<and> (n < 0 \<or> 10000 < n)) \<or>
           length (split_on CHR '':'' (trim ''=:BTC.BTC:bc1quser123'')) < 3"
    using t by blast
  from affiliate_failure_keeps_memo [OF h, of
     "\<lparr>INJECT_AFFILIATE_IN_SWAPS = Some ''true'', AFFILIATE_THORNAME = Some '' '',
       AFFILIATE_FEE_BP = None\<rparr>"
     "\<lparr>req_asset = ''BTC.BTC'', req_memo = ''=:BTC.BTC:bc1quser123'',
       requested_in_asset_amount = None\<rparr>" 1
     "\<lparr>assetDecimals = 8,
      broadcastTransaction = (\<lambda>p. Inr \<lparr>code = 0, transactionHash = ''AB12'', rawLog = []\<rparr>),
      getMemoReference = (\<lambda>h. Inl ''Request failed with status code 404''),
      newId = ''id1''\<rparr>"
     "\<lparr>dbType = Sqlite, rows = []\<rparr>"] s t
  show ?thesis by (simp add: or_default_def)
qed

section \<open>Confirmed registrations\<close>

text \<open>
  C8. The claim: for every execution of \<open>registerMemo\<close> and every response of the
  collaborators, a row is written with status \<open>Confirmed\<close> only with a non-empty
  reference ID, a height and a registering address.  \<open>registerMemo\<close> reads the reference
  back with \<open>getMemoReference\<close> and writes what it gets; only
  \<^verbatim>\<open>getMemoReferenceWithRetry\<close>, which it does not call, checks that the response holds a
  reference.  With a read-back whose reference, height and registering address are empty
  strings, the SQLite store ends with a confirmed row whose three columns are \<^verbatim>\<open>NULL\<close>.
\<close>

theorem confirmed_registration_with_empty_reference:
  "fst (registerMemo fuel
     \<lparr>INJECT_AFFILIATE_IN_SWAPS = None, AFFILIATE_THORNAME = None, AFFILIATE_FEE_BP = None\<rparr>
     \<lparr>assetDecimals = 8,
      broadcastTransaction = (\<lambda>p. Inr \<lparr>code = 0, transactionHash = ''AB12'', rawLog = []\<rparr>),
      getMemoReference = (\<lambda>h. Inr \<lparr>mr_asset = Some ''BTC.BTC'', mr_memo = Some ''DONATE:BTC.BTC'',
         mr_reference = Some [], mr_height = Some [], mr_registration_hash = Some [],
         mr_registered_by = Some []\<rparr>),
      newId = ''id1''\<rparr>
     \<lparr>dbType = Sqlite, rows = []\<rparr>
     \<lparr>req_asset = ''BTC.BTC'', req_memo = ''DONATE:BTC.BTC'', requested_in_asset_amount = None\<rparr>)
   = \<lparr>dbType = Sqlite,
      rows = [\<lparr>row_id = ''id1'', tx_hash = ''AB12'', row_asset = ''BTC.BTC'',
               row_memo = ''DONATE:BTC.BTC'', row_status = Confirmed, user_address = None,
               reference_id = None, row_height = None, registration_hash = None,
               registered_by = None\<rparr>]\<rparr>"
  by (simp add: registerMemo_def processAffiliateInjection_def broadcastRegistration_def
        createRegistration_def Let_def or_null_def)

section \<open>Properties of the decimal codec\<close>

lemma parseFloat_scaled:
  assumes "ip \<noteq> []" and "is_digits ip" and "is_digits X"
  shows "parseFloat (ip @ CHR ''.'' # X) =
           Some (of_nat (radix_value 10 ip * 10 ^ length X + radix_value 10 X) / 10 ^ length X)"
  by (simp add: parseFloat_point [OF assms] field_simps)

lemma parseFloat_digits:
  assumes "ip \<noteq> []" and "is_digits ip"
  shows "parseFloat ip = Some (of_nat (radix_value 10 ip))"
proof -
  obtain c t where s: "ip = c # t" using assms(1) by (cases ip) auto
  with assms(2) have c: "is_digit c" by (auto simp: is_digits_def)
  have sp: "dropWhile is_space ip = ip" using s c by (simp add: is_digit_not_space)
  have sg: "take 1 ip \<noteq> ''-''" "take 1 ip \<noteq> ''+''" using s is_digit_not_sign [OF c] by auto
  show ?thesis
    unfolding parseFloat_def Let_def sp using sg assms
    by (simp add: takeWhile_digits dropWhile_digits)
qed

lemma normalizedAmount_form:
  assumes "is_amount a"
  obtains ip fp where "split_on CHR ''.'' a = [ip] \<and> fp = [] \<or> split_on CHR ''.'' a = [ip, fp]"
    and "ip \<noteq> []" and "is_digits ip" and "is_digits fp"
    and "normalizedAmount a d = ip @ CHR ''.'' # (take d fp @ replicate (d - length fp) CHR ''0'')"
proof (rule is_amount_cases [OF assms])
  fix ip assume h: "a = ip" "ip \<noteq> []" "is_digits ip" "split_on CHR ''.'' a = [ip]"
  show thesis
    by (rule that [of ip "[]"]) (use h in \<open>simp_all add: normalizedAmount_def padEnd_def\<close>)
next
  fix ip fp
  assume h: "a = ip @ CHR ''.'' # fp" "ip \<noteq> []" "is_digits ip" "is_digits fp"
    "split_on CHR ''.'' a = [ip, fp]"
  show thesis
    by (rule that [of ip fp]) (use h in \<open>simp_all add: normalizedAmount_def padEnd_def min_def\<close>)
qed

lemma validate_embedded:
  assumes "r \<noteq> []" and "CHR ''.'' \<notin> set ip" and "CHR ''.'' \<notin> set B" and "CHR ''.'' \<notin> set r"
    and "length (B @ r) = d"
  shows "validateAmountToReference (ip @ CHR ''.'' # B @ r) r d"
proof -
  have sp: "split_on CHR ''.'' (ip @ CHR ''.'' # B @ r) = [ip, B @ r]"
    using assms by (intro split_on_two) auto
  show ?thesis
    unfolding validateAmountToReference_def Let_def sp
    using assms(5) slice_last_suffix [OF assms(1), of B] by (simp add: padEnd_def)
qed




lemma num_le_scaled [simp]:
  "num_le (Some (of_nat a / 10 ^ d :: rat)) (Some (of_nat b / 10 ^ d)) = (a \<le> b)"
  by (simp add: num_le_def divide_le_cancel)

lemma num_less_scaled [simp]:
  "num_less (Some (of_nat a / 10 ^ d :: rat)) (Some (of_nat b / 10 ^ d)) = (a < b)"
  by (simp add: num_less_def divide_less_cancel)

lemma embedded_value:
  assumes "ip \<noteq> []" and "is_digits ip" and "is_digits B" and "is_digits r"
    and "length B = d - length r" and "length r \<le> d"
  shows "parseFloat (ip @ CHR ''.'' # B @ r) =
           Some (of_nat ((radix_value 10 ip * 10 ^ (d - length r) + radix_value 10 B) * 10 ^ length r
                    + radix_value 10 r) / 10 ^ d)"
proof -
  have l: "length (B @ r) = d" using assms(5,6) by simp
  have p: "(10::nat) ^ d = 10 ^ (d - length r) * 10 ^ length r"
    using assms(6) by (simp add: power_add [symmetric])
  have "parseFloat (ip @ CHR ''.'' # B @ r) =
          Some (of_nat (radix_value 10 ip * 10 ^ d + radix_value 10 (B @ r)) / 10 ^ d)"
    using parseFloat_scaled [of ip "B @ r"] assms(1-4) l by simp
  also have "radix_value 10 ip * 10 ^ d + radix_value 10 (B @ r) =
      (radix_value 10 ip * 10 ^ (d - length r) + radix_value 10 B) * 10 ^ length r + radix_value 10 r"
    by (simp add: radix_value_append p algebra_simps)
  finally show ?thesis .
qed

lemma scaled_eq [simp]: "((of_nat a / 10 ^ d :: rat) = of_nat b / 10 ^ d) = (a = b)"
  by simp

lemma frac_trunc_le:
  assumes "is_digits fp"
  shows "(of_nat (radix_value 10 (take d fp @ replicate (d - length fp) CHR ''0'')) / 10 ^ d :: rat)
           \<le> of_nat (radix_value 10 fp) / 10 ^ length fp"
proof (cases "length fp \<le> d")
  case True
  then have "take d fp @ replicate (d - length fp) CHR ''0'' = fp @ replicate (d - length fp) CHR ''0''"
    by simp
  moreover have "(10::rat) ^ d = 10 ^ length fp * 10 ^ (d - length fp)"
    using True by (simp add: power_add [symmetric])
  ultimately show ?thesis
    by (simp add: radix_value_append)
next
  case False
  define X where "X = take d fp"
  define R where "R = drop d fp"
  have fp: "fp = X @ R" and lX: "length X = d" using False by (auto simp: X_def R_def)
  have e: "take d fp @ replicate (d - length fp) CHR ''0'' = X" using False by (simp add: X_def)
  have "(of_nat (radix_value 10 X) / 10 ^ d :: rat) =
          of_nat (radix_value 10 X * 10 ^ length R) / 10 ^ (d + length R)"
    by (simp add: power_add)
  also have "\<dots> \<le> of_nat (radix_value 10 X * 10 ^ length R + radix_value 10 R) / 10 ^ (d + length R)"
    by (intro divide_right_mono) (simp_all del: of_nat_mult of_nat_add)
  also have "\<dots> = of_nat (radix_value 10 fp) / 10 ^ length fp"
    by (simp add: fp radix_value_append lX)
  finally show ?thesis unfolding e .
qed

lemma amount_ge_normalized:
  assumes "is_amount x"
  obtains ip X vx where "ip \<noteq> []" "is_digits ip" "is_digits X" "length X = d"
    "normalizedAmount x d = ip @ CHR ''.'' # X"
    "elem_or [] (split_on CHR ''.'' x) (Suc 0) @ replicate (d - length (elem_or [] (split_on CHR ''.'' x) (Suc 0))) CHR ''0'' = X
       \<or> take d (elem_or [] (split_on CHR ''.'' x) (Suc 0)) = X \<and> d < length (elem_or [] (split_on CHR ''.'' x) (Suc 0))"
    "parseFloat x = Some vx"
    "of_nat (radix_value 10 ip * 10 ^ d + radix_value 10 X) / 10 ^ d \<le> vx"
proof (rule normalizedAmount_form [OF assms, of d])
  fix ip fp
  assume sp: "split_on CHR ''.'' x = [ip] \<and> fp = [] \<or> split_on CHR ''.'' x = [ip, fp]"
    and ip: "ip \<noteq> []" "is_digits ip" and fp: "is_digits fp"
    and norm: "normalizedAmount x d = ip @ CHR ''.'' # (take d fp @ replicate (d - length fp) CHR ''0'')"
  let ?X = "take d fp @ replicate (d - length fp) CHR ''0''"
  have X: "is_digits ?X" "length ?X = d" using fp by (auto intro: is_digits_take)
  have el: "elem_or [] (split_on CHR ''.'' x) (Suc 0) = fp" using sp by auto
  have shape: "fp @ replicate (d - length fp) CHR ''0'' = ?X \<or> take d fp = ?X \<and> d < length fp"
    by (cases "length fp \<le> d") auto
  have j: "join_with CHR ''.'' (split_on CHR ''.'' x) = x" by (rule join_split)
  have frac: "(of_nat (radix_value 10 ip * 10 ^ d + radix_value 10 ?X) / 10 ^ d :: rat)
                \<le> of_nat (radix_value 10 ip) + of_nat (radix_value 10 fp) / 10 ^ length fp"
  proof -
    have "(of_nat (radix_value 10 ip * 10 ^ d + radix_value 10 ?X) / 10 ^ d :: rat) =
            of_nat (radix_value 10 ip) + of_nat (radix_value 10 ?X) / 10 ^ d"
      by (simp add: field_simps)
    with frac_trunc_le [OF fp, of d] show ?thesis by simp
  qed
  from sp show thesis
  proof
    assume h: "split_on CHR ''.'' x = [ip] \<and> fp = []"
    with j have "x = ip" by simp
    then have pf: "parseFloat x = Some (of_nat (radix_value 10 ip))"
      using parseFloat_digits [OF ip] by simp
    show thesis
      by (rule that [OF ip X norm _ pf]) (use frac h shape el in \<open>simp_all\<close>)
  next
    assume h: "split_on CHR ''.'' x = [ip, fp]"
    with j have "x = ip @ CHR ''.'' # fp" by simp
    then have pf: "parseFloat x = Some (of_nat (radix_value 10 ip) + of_nat (radix_value 10 fp) / 10 ^ length fp)"
      using parseFloat_point [OF ip fp] by simp
    show thesis
      by (rule that [OF ip X norm _ pf frac]) (use shape el in \<open>simp_all\<close>)
  qed
qed

lemma minimum_amount_form:
  assumes "is_reference r" and "length r \<le> d"
  obtains ip B where "calculateMinimumAmountToSend r d = ip @ CHR ''.'' # B @ r"
    "ip \<noteq> []" "is_digits ip" "is_digits B" "length B = d - length r"
    "radix_value 10 ip * 10 ^ (d - length r) + radix_value 10 B = 1"
proof (cases "length r = d")
  case True
  show ?thesis
    by (rule that [of "''1''" "[]"])
       (use True in \<open>simp_all add: calculateMinimumAmountToSend_def radix_value_Cons\<close>)
next
  case False
  with assms(2) have lt: "length r < d" by simp
  show ?thesis
    by (rule that [of "''0''" "replicate (d - length r - 1) CHR ''0'' @ ''1''"])
       (use lt in \<open>simp_all add: calculateMinimumAmountToSend_def Let_def nat_diff_distrib
          radix_value_Cons radix_value_append\<close>)
qed

lemma validate_unfold:
  "validateAmountToReference x r d =
     (slice_last (length r)
        (padEnd d CHR ''0''
           (if d < length (elem_or [] (split_on CHR ''.'' x) (Suc 0))
            then take d (elem_or [] (split_on CHR ''.'' x) (Suc 0))
            else elem_or [] (split_on CHR ''.'' x) (Suc 0))) = r)"
  by (simp add: validateAmountToReference_def Let_def)

section \<open>Suggested amounts\<close>



text \<open>
  The increment loop of \<open>calculateSuggestedAmount\<close> is the loop of the up-direction
  suggestion: when the requested amount is not below the minimum and the reference is
  not longer than the decimals, both start from the same candidate.
\<close>

lemma calculateSuggestedAmount_is_up_suggestion:
  assumes "\<not> num_less (parseFloat a) (parseFloat m)" and "length r \<le> d"
  shows "calculateSuggestedAmount fuel a m r d = amountSuggestion fuel a r d Up"
proof -
  let ?parts = "split_on CHR ''.'' a"
  let ?ip = "elem_or [] ?parts 0"
  let ?F = "padEnd d CHR ''0'' (take d (elem_or [] ?parts (Suc 0)))"
  have ne: "?parts \<noteq> []" by simp
  have ip: "CHR ''.'' \<notin> set ?ip"
    using ne split_on_sep_free [of ?ip "CHR ''.''" a]
    by (cases ?parts) (auto simp: elem_or_def elem_def)
  have dp: "CHR ''.'' \<notin> set (elem_or [] ?parts (Suc 0))"
    using split_on_sep_free [of "?parts ! Suc 0" "CHR ''.''" a]
    by (auto simp: elem_or_def elem_def)
  have F: "CHR ''.'' \<notin> set ?F"
    using dp by (auto simp: padEnd_def dest: in_set_takeD)
  have sp: "split_on CHR ''.'' (?ip @ CHR ''.'' # ?F) = [?ip, ?F]"
    using ip F by (rule split_on_two)
  have n: "normalizedAmount a d = ?ip @ CHR ''.'' # ?F"
    by (simp add: normalizedAmount_def Let_def)
  have "amountSuggestion fuel a r d Up =
          up_loop fuel (parseFloat (?ip @ CHR ''.'' # ?F)) r d
            (?ip @ CHR ''.'' # take (d - length r) ?F @ r)"
    unfolding amountSuggestion_def calculateSingleSuggestion_def n Let_def sp
    by (simp only: elem_simps elem_or_simps option.case direction.case One_nat_def append.simps)
  moreover have "calculateSuggestedAmount fuel a m r d =
          up_loop fuel (parseFloat (?ip @ CHR ''.'' # ?F)) r d
            (?ip @ CHR ''.'' # take (d - length r) ?F @ r)"
    using assms by (simp add: calculateSuggestedAmount_def Let_def)
  ultimately show ?thesis by simp
qed

text \<open>
  C4. The claim: the increment and decrement loops end after at most
  \<open>10 ^ (d - length r)\<close> steps.  The decrement loop of \<open>calculateSingleSuggestion\<close> does
  not end when the borrow reaches an integer part that is zero:
  \<open>decrementBeforeReference\<close> then returns the working amount it was given, which is
  still greater than the requested amount.  For the requested amount \<^verbatim>\<open>0.00000001\<close>,
  reference \<^verbatim>\<open>00008\<close> and 8 decimals the loop is still running at every bound.
\<close>

theorem down_suggestion_never_returns:
  "amountSuggestion fuel ''0.00000001'' ''00008'' 8 Down = None"
proof -
  have step: "decrementBeforeReference ''0.00000008'' 5 = Inr ''0.00000008''" by code_simp
  have cond: "num_less (parseFloat ''0.00000001'') (parseFloat ''0.00000008'')" by code_simp
  have loop: "down_loop fuel (parseFloat ''0.00000001'') 5 ''0.00000008'' = None"
    by (induction fuel) (simp_all add: step cond)
  have n: "normalizedAmount ''0.00000001'' 8 = ''0.00000001''" by code_simp
  have sp: "split_on CHR ''.'' ''0.00000001'' = [''0'', ''00000001'']" by code_simp
  have "amountSuggestion fuel ''0.00000001'' ''00008'' 8 Down =
          down_loop fuel (parseFloat ''0.00000001'') 5 ''0.00000008''"
    unfolding amountSuggestion_def n calculateSingleSuggestion_def Let_def sp
    by (simp add: eval_nat_numeral)
  with loop show ?thesis by simp
qed

text \<open>
  C5. The claim: when the borrow of a down-direction suggestion would take the integer
  part below zero, the returned amount is the minimum amount of
  \<open>calculateMinimumAmountToSend\<close>.  The branch of \<open>decrementBeforeReference\<close> that is
  commented as returning the minimum returns zeros followed by the reference, the amount
  it was called with, and not the minimum amount.
\<close>

theorem down_clamp_returns_bare_reference:
  "decrementBeforeReference ''0.00000008'' 5 = Inr ''0.00000008'' \<and>
   calculateMinimumAmountToSend ''00008'' 8 = ''0.00100008''"
  by code_simp

section \<open>Minimum amount\<close>

text \<open>
  C3. The claim: for every reference ID \<open>r\<close> and decimals \<open>d\<close> the minimum amount
  matches the reference, and no smaller positive amount does.  A reference longer than
  the decimals is truncated, and the minimum amount does not match it; and the bare
  reference \<^verbatim>\<open>0.00000008\<close> is positive, matches \<^verbatim>\<open>00008\<close> at 8 decimals and is
  smaller than the minimum amount \<^verbatim>\<open>0.00100008\<close>, which by construction carries the digit 1 before the
  reference.
\<close>

theorem minimum_amount_not_least_and_long_reference:
  "\<not> validateAmountToReference (calculateMinimumAmountToSend ''12345'' 4) ''12345'' 4 \<and>
   calculateMinimumAmountToSend ''00008'' 8 = ''0.00100008'' \<and>
   is_amount ''0.00000008'' \<and>
   validateAmountToReference ''0.00000008'' ''00008'' 8 \<and>
   num_less (Some 0) (parseFloat ''0.00000008'') \<and>
   num_less (parseFloat ''0.00000008'') (parseFloat (calculateMinimumAmountToSend ''00008'' 8))"
  by code_simp

text \<open>
  C3, amended: for every reference ID \<open>r\<close> and decimals \<open>d\<close> with \<open>length r \<le> d\<close>, the
  minimum amount matches the reference, and it is at most every amount that matches the
  reference, except the amounts whose truncation to \<open>d\<close> decimals has the value of the bare
  reference \<open>0.0\<dots>0r\<close> (integer part zero and only zeros before the reference).
\<close>

theorem minimum_amount_matches_and_is_least:
  assumes "is_reference r" and "length r \<le> d"
  shows "validateAmountToReference (calculateMinimumAmountToSend r d) r d \<and>
         (\<forall>x. is_amount x \<and> validateAmountToReference x r d \<and>
              parseFloat (normalizedAmount x d) \<noteq>
                parseFloat (''0.'' @ replicate (d - length r) CHR ''0'' @ r)
              \<longrightarrow> num_le (parseFloat (calculateMinimumAmountToSend r d)) (parseFloat x))"
proof (intro conjI allI impI)
  from assms(1) have r: "r \<noteq> []" "is_digits r" by (auto simp: is_reference_def)
  let ?L = "length r" and ?k = "d - length r"
  have p: "(10::nat) ^ d = 10 ^ ?k * 10 ^ ?L"
    using assms(2) by (simp add: power_add [symmetric])
  obtain ipm Bm where m: "calculateMinimumAmountToSend r d = ipm @ CHR ''.'' # Bm @ r"
    and ipm: "ipm \<noteq> []" "is_digits ipm" and Bm: "is_digits Bm" "length Bm = ?k"
    and vm: "radix_value 10 ipm * 10 ^ ?k + radix_value 10 Bm = 1"
    by (rule minimum_amount_form [OF assms])
  define Sm where "Sm = 10 ^ ?L + radix_value 10 r"
  have pm: "parseFloat (calculateMinimumAmountToSend r d) = Some (of_nat Sm / 10 ^ d)"
    using embedded_value [OF ipm Bm(1) r(2) Bm(2) assms(2)] unfolding m vm Sm_def by simp
  show "validateAmountToReference (calculateMinimumAmountToSend r d) r d"
    unfolding m using r ipm Bm assms(2)
    by (intro validate_embedded) (auto dest: is_digits_no_dot)
  fix x
  assume h: "is_amount x \<and> validateAmountToReference x r d \<and>
              parseFloat (normalizedAmount x d) \<noteq>
                parseFloat (''0.'' @ replicate (d - length r) CHR ''0'' @ r)"
  let ?fp = "elem_or [] (split_on CHR ''.'' x) (Suc 0)"
  obtain ip X vx where ip: "ip \<noteq> []" "is_digits ip" and X: "is_digits X" "length X = d"
    and norm: "normalizedAmount x d = ip @ CHR ''.'' # X"
    and shape: "?fp @ replicate (d - length ?fp) CHR ''0'' = X \<or> take d ?fp = X \<and> d < length ?fp"
    and px: "parseFloat x = Some vx"
    and ge: "of_nat (radix_value 10 ip * 10 ^ d + radix_value 10 X) / 10 ^ d \<le> vx"
    using h by (elim conjE amount_ge_normalized [of x d]) blast
  have padded: "padEnd d CHR ''0'' (if d < length ?fp then take d ?fp else ?fp) = X"
  proof (cases "d < length ?fp")
    case True
    with shape X(2) have "take d ?fp = X" by auto
    with True X(2) show ?thesis by (simp add: padEnd_def)
  next
    case False
    with shape have "?fp @ replicate (d - length ?fp) CHR ''0'' = X" by auto
    with False show ?thesis by (simp add: padEnd_def)
  qed
  have "validateAmountToReference x r d = (slice_last ?L X = r)"
    using validate_unfold [of x r d] padded by simp
  with h r(1) have dr: "drop ?k X = r" by (simp add: slice_last_def X(2))
  define Bx where "Bx = take ?k X"
  have XB: "X = Bx @ r" by (metis append_take_drop_id Bx_def dr)
  have Bx: "is_digits Bx" "length Bx = ?k"
    using X assms(2) by (auto simp: Bx_def intro: is_digits_take)
  define Nx where "Nx = radix_value 10 ip * 10 ^ ?k + radix_value 10 Bx"
  define Sx where "Sx = Nx * 10 ^ ?L + radix_value 10 r"
  have pn: "parseFloat (normalizedAmount x d) = Some (of_nat Sx / 10 ^ d)"
    unfolding norm XB Sx_def Nx_def
    by (rule embedded_value [OF ip Bx(1) r(2) Bx(2) assms(2)])
  have Sx: "radix_value 10 ip * 10 ^ d + radix_value 10 X = Sx"
    unfolding XB Sx_def Nx_def by (simp add: radix_value_append p algebra_simps)
  have pb: "parseFloat (''0.'' @ replicate ?k CHR ''0'' @ r) = Some (of_nat (radix_value 10 r) / 10 ^ d)"
    using embedded_value [of "''0''" "replicate ?k CHR ''0''" r d] r(2) assms(2)
    by (simp add: radix_value_Cons)
  from h have "Sx \<noteq> radix_value 10 r" unfolding pn pb by simp
  then have "Nx \<noteq> 0" by (auto simp: Sx_def)
  then have "1 * 10 ^ ?L \<le> Nx * 10 ^ ?L" by (intro mult_le_mono1) simp
  then have "Sm \<le> Sx" by (simp add: Sm_def Sx_def)
  then have "(of_nat Sm / 10 ^ d :: rat) \<le> of_nat Sx / 10 ^ d"
    by (simp add: divide_le_cancel)
  also have "\<dots> \<le> vx" using ge unfolding Sx .
  finally show "num_le (parseFloat (calculateMinimumAmountToSend r d)) (parseFloat x)"
    unfolding pm px by (simp add: num_le_def)
qed

text \<open>
  C3, an instance: the minimum amount \<^verbatim>\<open>0.00100008\<close> for reference \<^verbatim>\<open>00008\<close> at 8
  decimals matches, and it is at most the matching amount \<^verbatim>\<open>0.00200008\<close>.
\<close>

theorem minimum_amount_matches_and_is_least_witness:
  "is_reference ''00008'' \<and> length ''00008'' \<le> (8::nat) \<and>
   calculateMinimumAmountToSend ''00008'' 8 = ''0.00100008'' \<and>
   validateAmountToReference ''0.00100008'' ''00008'' 8 \<and>
   is_amount ''0.00200008'' \<and> validateAmountToReference ''0.00200008'' ''00008'' 8 \<and>
   num_le (parseFloat ''0.00100008'') (parseFloat ''0.00200008'')"
proof -
  have r: "is_reference ''00008''" by code_simp
  have l: "length ''00008'' \<le> (8::nat)" by simp
  have m: "calculateMinimumAmountToSend ''00008'' 8 = ''0.00100008''" by code_simp
  have a: "is_amount ''0.00200008''" by code_simp
  have v: "validateAmountToReference ''0.00200008'' ''00008'' 8" by code_simp
  have n: "parseFloat (normalizedAmount ''0.00200008'' 8) \<noteq>
             parseFloat (''0.'' @ replicate (8 - length ''00008'') CHR ''0'' @ ''00008'')"
    by code_simp
  from minimum_amount_matches_and_is_least [OF r l] a v n r l m
  show ?thesis by auto
qed

end
